theory Spec2Isabelle
  imports Main
begin

section \<open>JavaScript values and the JSON built-ins the handler calls\<close>

text \<open>
  The chat endpoint (\<^verbatim>\<open>POST\<close> in \<^verbatim>\<open>app/api/chat/route.ts\<close>) works on
  strings and on the values \<^verbatim>\<open>JSON.parse\<close> returns. The model of these built-ins:
  \<^item> a JavaScript string is a \<^typ>\<open>string\<close>, a sequence of code units below 256; an
    escape \<^verbatim>\<open>\uXXXX\<close> for a higher code unit is outside the model, and the parser
    refuses it;
  \<^item> a number is kept as its literal: the handler never computes with numbers, it tests
    them for truthiness and prints them back. The parser accepts exactly the number
    grammar of JSON. A literal stands for zero when its mantissa has no digit but
    \<open>0\<close>, and it is printed as it was read: this is what JavaScript does for a
    literal in the form in which JavaScript itself prints the number (such as an
    integer of up to 15 digits without leading zero), the only literals that
    \<^verbatim>\<open>JSON.stringify\<close> produces; rounding, underflow and overflow of doubles are
    outside the model;
  \<^item> an object is an association list with distinct keys, in the order in which
    JavaScript enumerates the own properties.
\<close>

datatype json =
    JNull
  | JBool bool
  | JNum string
  | JStr string
  | JArr "json list"
  | JObj "(string \<times> json) list"

datatype token =
    TLBrace | TRBrace | TLBrack | TRBrack | TColon | TComma
  | TTrue | TFalse | TNull | TNum string | TStr string

subsection \<open>Characters\<close>

definition dquote :: char where
  "dquote = CHR 0x22"

definition bslash :: char where
  "bslash = CHR 0x5C"

definition newline :: char where
  "newline = CHR 0x0A"

definition is_digit :: "char \<Rightarrow> bool" where
  "is_digit c = (c \<in> set ''0123456789'')"

definition is_numchar :: "char \<Rightarrow> bool" where
  "is_numchar c = (c \<in> set ''0123456789+-.eE'')"

text \<open>JSON white space: space, tab, line feed, carriage return.\<close>

definition is_json_ws :: "char \<Rightarrow> bool" where
  "is_json_ws c = (c \<in> {CHR 0x20, CHR 0x09, CHR 0x0A, CHR 0x0D})"


definition hex_val :: "char \<Rightarrow> nat option" where
  "hex_val c =
     (if is_digit c then Some (of_char c - 48)
      else if c \<in> set ''abcdef'' then Some (of_char c - 87)
      else if c \<in> set ''ABCDEF'' then Some (of_char c - 55)
      else None)"

definition hex_digit :: "nat \<Rightarrow> char" where
  "hex_digit n = (if n < 10 then char_of (48 + n) else char_of (87 + n))"

subsection \<open>The number grammar\<close>

definition num_exp :: "string \<Rightarrow> bool" where
  "num_exp s =
     (case s of
        [] \<Rightarrow> True
      | c # t \<Rightarrow>
          (c = CHR ''e'' \<or> c = CHR ''E'') \<and>
          (let ds = (case t of
                       [] \<Rightarrow> []
                     | d # u \<Rightarrow> if d = CHR ''+'' \<or> d = CHR ''-'' then u else t)
           in ds \<noteq> [] \<and> list_all is_digit ds))"

definition num_frac :: "string \<Rightarrow> bool" where
  "num_frac s =
     (case s of
        [] \<Rightarrow> True
      | c # t \<Rightarrow>
          if c = CHR ''.''
          then takeWhile is_digit t \<noteq> [] \<and> num_exp (dropWhile is_digit t)
          else num_exp s)"

definition num_int :: "string \<Rightarrow> bool" where
  "num_int s =
     (case s of
        [] \<Rightarrow> False
      | c # t \<Rightarrow>
          if c = CHR ''0'' then num_frac t
          else is_digit c \<and> num_frac (dropWhile is_digit t))"

definition is_number :: "string \<Rightarrow> bool" where
  "is_number s =
     (case s of
        [] \<Rightarrow> False
      | c # t \<Rightarrow> if c = CHR ''-'' then num_int t else num_int s)"

subsection \<open>\<^verbatim>\<open>JSON.parse\<close>: the lexer\<close>

definition unescape :: "char \<Rightarrow> char option" where
  "unescape e =
     (if e = dquote then Some dquote
      else if e = bslash then Some bslash
      else if e = CHR ''/'' then Some (CHR ''/'')
      else if e = CHR ''b'' then Some (CHR 0x08)
      else if e = CHR ''f'' then Some (CHR 0x0C)
      else if e = CHR ''n'' then Some (CHR 0x0A)
      else if e = CHR ''r'' then Some (CHR 0x0D)
      else if e = CHR ''t'' then Some (CHR 0x09)
      else None)"

text \<open>
  \<^verbatim>\<open>\uXXXX\<close>: four hexadecimal digits. A code unit of 256 or more is outside the
  strings modelled here, and the lexer refuses it.
\<close>

definition hex4 :: "char \<Rightarrow> char \<Rightarrow> char \<Rightarrow> char \<Rightarrow> char option" where
  "hex4 a b c d =
     (case (hex_val a, hex_val b, hex_val c, hex_val d) of
        (Some h1, Some h2, Some h3, Some h4) \<Rightarrow>
          if h1 = 0 \<and> h2 = 0 then Some (char_of (16 * h3 + h4)) else None
      | _ \<Rightarrow> None)"

text \<open>
  \<open>lex_string\<close> reads a string literal after its opening quote and returns the
  decoded string and the input after the closing quote.
\<close>

fun lex_string :: "string \<Rightarrow> (string \<times> string) option" where
  "lex_string [] = None"
| "lex_string (c # cs) =
     (if c = dquote then Some ([], cs)
      else if c = bslash then
        (case cs of
           [] \<Rightarrow> None
         | e # cs1 \<Rightarrow>
             if e = CHR ''u'' then
               (case cs1 of
                  h1 # h2 # h3 # h4 # cs2 \<Rightarrow>
                    (case hex4 h1 h2 h3 h4 of
                       None \<Rightarrow> None
                     | Some ch \<Rightarrow> map_option (apfst ((#) ch)) (lex_string cs2))
                | _ \<Rightarrow> None)
             else
               (case unescape e of
                  None \<Rightarrow> None
                | Some ch \<Rightarrow> map_option (apfst ((#) ch)) (lex_string cs1)))
      else if (of_char c :: nat) < 32 then None
      else map_option (apfst ((#) c)) (lex_string cs))"

lemma lex_string_shorter:
  "lex_string cs = Some (s, rest) \<Longrightarrow> length rest \<le> length cs"
proof (induction cs arbitrary: s rest rule: lex_string.induct)
  case 1
  then show ?case by simp
next
  case (2 c cs)
  show ?case
  proof (cases "c = dquote")
    case True
    with "2.prems" show ?thesis by simp
  next
    case nq: False
    show ?thesis
    proof (cases "c = bslash")
      case True
      note bs = True
      from "2.prems" nq bs obtain e cs1 where cs: "cs = e # cs1"
        by (auto split: list.splits)
      show ?thesis
      proof (cases "e = CHR ''u''")
        case True
        from "2.prems" nq bs cs True obtain h1 h2 h3 h4 cs2 ch s' where
          cs1: "cs1 = h1 # h2 # h3 # h4 # cs2" and h: "hex4 h1 h2 h3 h4 = Some ch"
          and r: "lex_string cs2 = Some (s', rest)"
          by (auto split: list.splits option.splits)
        from "2.IH"(1) [OF nq bs cs True cs1 refl refl refl h r] cs cs1
        show ?thesis by simp
      next
        case False
        from "2.prems" nq bs cs False obtain ch s' where
          u: "unescape e = Some ch" and r: "lex_string cs1 = Some (s', rest)"
          by (auto split: option.splits)
        from "2.IH"(2) [OF nq bs cs False u r] cs show ?thesis by simp
      qed
    next
      case False
      from "2.prems" nq False obtain s' where
        c: "\<not> (of_char c :: nat) < 32" and r: "lex_string cs = Some (s', rest)"
        by (auto split: if_splits)
      from "2.IH"(3) [OF nq False c r] show ?thesis by simp
    qed
  qed
qed

function lexer :: "string \<Rightarrow> token list option" where
  "lexer [] = Some []"
| "lexer (c # cs) =
     (if is_json_ws c then lexer cs
      else if c = CHR ''{'' then map_option ((#) TLBrace) (lexer cs)
      else if c = CHR ''}'' then map_option ((#) TRBrace) (lexer cs)
      else if c = CHR ''['' then map_option ((#) TLBrack) (lexer cs)
      else if c = CHR '']'' then map_option ((#) TRBrack) (lexer cs)
      else if c = CHR '':'' then map_option ((#) TColon) (lexer cs)
      else if c = CHR '','' then map_option ((#) TComma) (lexer cs)
      else if c = dquote then
        (case lex_string cs of
           None \<Rightarrow> None
         | Some (s, rest) \<Rightarrow> map_option ((#) (TStr s)) (lexer rest))
      else if is_numchar c then
        (if is_number (c # takeWhile is_numchar cs)
         then map_option ((#) (TNum (c # takeWhile is_numchar cs)))
                (lexer (dropWhile is_numchar cs))
         else None)
      else if c = CHR ''t'' \<and> take 3 cs = ''rue'' then
        map_option ((#) TTrue) (lexer (drop 3 cs))
      else if c = CHR ''f'' \<and> take 4 cs = ''alse'' then
        map_option ((#) TFalse) (lexer (drop 4 cs))
      else if c = CHR ''n'' \<and> take 3 cs = ''ull'' then
        map_option ((#) TNull) (lexer (drop 3 cs))
      else None)"
  by pat_completeness auto
termination
proof (relation "measure length")
  fix c cs x2 x y
  assume "lex_string cs = Some x2" "(x, y) = x2"
  then show "(y, c # cs) \<in> measure length"
    using lex_string_shorter [of cs x y] by simp
qed (simp_all add: less_Suc_eq_le length_dropWhile_le)

subsection \<open>Property order of a JavaScript object\<close>

text \<open>
  JavaScript enumerates the own properties of an object with the array indices first
  (canonical decimal strings below \<open>2^32 - 1\<close>, in ascending numeric order) and then
  the other keys in the order of their creation. \<open>obj_set\<close> is the assignment
  \<^verbatim>\<open>o[k] = v\<close> on an association list kept in that order: an existing key keeps
  its place and takes the new value.
\<close>

definition index_value :: "string \<Rightarrow> int" where
  "index_value k = foldl (\<lambda>n c. 10 * n + (of_char c - 48)) 0 k"

definition is_index :: "string \<Rightarrow> bool" where
  "is_index k =
     (k \<noteq> [] \<and> list_all is_digit k \<and> (k = ''0'' \<or> hd k \<noteq> CHR ''0'') \<and>
      index_value k < 4294967295)"

definition key_before :: "string \<Rightarrow> string \<Rightarrow> bool" where
  "key_before k k' = (is_index k \<and> (\<not> is_index k' \<or> index_value k < index_value k'))"

fun obj_set :: "string \<Rightarrow> json \<Rightarrow> (string \<times> json) list \<Rightarrow> (string \<times> json) list" where
  "obj_set k v [] = [(k, v)]"
| "obj_set k v ((k', v') # ms) =
     (if k = k' then (k, v) # ms
      else if key_before k k' then (k, v) # (k', v') # ms
      else (k', v') # obj_set k v ms)"

subsection \<open>\<^verbatim>\<open>JSON.parse\<close>: the parser\<close>

text \<open>
  The parser is a stack machine over the tokens: a frame is a container under
  construction (an array with its elements so far, last first, or an object with its
  members so far and the key whose value is being read).
\<close>

datatype frame = FArr "json list" | FObj "(string \<times> json) list" string

datatype pstate =
    SVal "frame list"
  | SArr0 "frame list"
  | SObj0 "frame list"
  | SKey "(string \<times> json) list" "frame list"
  | SColon "(string \<times> json) list" string "frame list"
  | SArrNext "json list" "frame list"
  | SObjNext "(string \<times> json) list" "frame list"
  | SDone json

fun complete :: "json \<Rightarrow> frame list \<Rightarrow> pstate" where
  "complete v [] = SDone v"
| "complete v (FArr xs # fs) = SArrNext (v # xs) fs"
| "complete v (FObj ms k # fs) = SObjNext (obj_set k v ms) fs"

fun atom :: "token \<Rightarrow> json option" where
  "atom TTrue = Some (JBool True)"
| "atom TFalse = Some (JBool False)"
| "atom TNull = Some JNull"
| "atom (TNum n) = Some (JNum n)"
| "atom (TStr s) = Some (JStr s)"
| "atom _ = None"

fun value_start :: "token \<Rightarrow> frame list \<Rightarrow> pstate option" where
  "value_start TLBrack fs = Some (SArr0 fs)"
| "value_start TLBrace fs = Some (SObj0 fs)"
| "value_start t fs = map_option (\<lambda>a. complete a fs) (atom t)"

fun pstep :: "token \<Rightarrow> pstate \<Rightarrow> pstate option" where
  "pstep t (SVal fs) = value_start t fs"
| "pstep TRBrack (SArr0 fs) = Some (complete (JArr []) fs)"
| "pstep t (SArr0 fs) = value_start t (FArr [] # fs)"
| "pstep TRBrace (SObj0 fs) = Some (complete (JObj []) fs)"
| "pstep (TStr k) (SObj0 fs) = Some (SColon [] k fs)"
| "pstep (TStr k) (SKey ms fs) = Some (SColon ms k fs)"
| "pstep TColon (SColon ms k fs) = Some (SVal (FObj ms k # fs))"
| "pstep TComma (SArrNext xs fs) = Some (SVal (FArr xs # fs))"
| "pstep TRBrack (SArrNext xs fs) = Some (complete (JArr (rev xs)) fs)"
| "pstep TComma (SObjNext ms fs) = Some (SKey ms fs)"
| "pstep TRBrace (SObjNext ms fs) = Some (complete (JObj ms) fs)"
| "pstep _ _ = None"

fun run :: "token list \<Rightarrow> pstate \<Rightarrow> json option" where
  "run [] (SDone v) = Some v"
| "run [] _ = None"
| "run (t # ts) st = (case pstep t st of None \<Rightarrow> None | Some st' \<Rightarrow> run ts st')"

definition JSON_parse :: "string \<Rightarrow> json option" where
  "JSON_parse s = (case lexer s of None \<Rightarrow> None | Some ts \<Rightarrow> run ts (SVal []))"

subsection \<open>\<^verbatim>\<open>JSON.stringify\<close>\<close>

definition escape_char :: "char \<Rightarrow> string" where
  "escape_char c =
     (if c = dquote then [bslash, dquote]
      else if c = bslash then [bslash, bslash]
      else if c = CHR 0x08 then [bslash, CHR ''b'']
      else if c = CHR 0x0C then [bslash, CHR ''f'']
      else if c = CHR 0x0A then [bslash, CHR ''n'']
      else if c = CHR 0x0D then [bslash, CHR ''r'']
      else if c = CHR 0x09 then [bslash, CHR ''t'']
      else if (of_char c :: nat) < 32 then
        [bslash, CHR ''u'', CHR ''0'', CHR ''0'',
         hex_digit (of_char c div 16), hex_digit (of_char c mod 16)]
      else [c])"

definition quote :: "string \<Rightarrow> string" where
  "quote s = dquote # concat (map escape_char s) @ [dquote]"

text \<open>\<^verbatim>\<open>Array.prototype.join\<close> (of strings; any lists here).\<close>

fun join :: "'a list \<Rightarrow> 'a list list \<Rightarrow> 'a list" where
  "join sep [] = []"
| "join sep [x] = x"
| "join sep (x # y # ys) = x @ sep @ join sep (y # ys)"

text \<open>
  \<open>serialize gap indent v\<close> is the serialisation of \<^verbatim>\<open>JSON.stringify\<close> with the
  indentation unit \<open>gap\<close> at the current indentation \<open>indent\<close>.
\<close>

fun serialize :: "string \<Rightarrow> string \<Rightarrow> json \<Rightarrow> string" where
  "serialize gap indent JNull = ''null''"
| "serialize gap indent (JBool b) = (if b then ''true'' else ''false'')"
| "serialize gap indent (JNum n) = n"
| "serialize gap indent (JStr s) = quote s"
| "serialize gap indent (JArr xs) =
     (if xs = [] then ''[]''
      else if gap = [] then ''['' @ join '','' (map (serialize gap indent) xs) @ '']''
      else ''['' @ [newline] @ (indent @ gap) @
           join ('','' @ [newline] @ (indent @ gap)) (map (serialize gap (indent @ gap)) xs) @
           [newline] @ indent @ '']'')"
| "serialize gap indent (JObj ms) =
     (if ms = [] then ''{}''
      else if gap = [] then
        ''{'' @ join '','' (map (\<lambda>(k, v). quote k @ '':'' @ serialize gap indent v) ms) @ ''}''
      else ''{'' @ [newline] @ (indent @ gap) @
           join ('','' @ [newline] @ (indent @ gap))
             (map (\<lambda>(k, v). quote k @ '': '' @ serialize gap (indent @ gap) v) ms) @
           [newline] @ indent @ ''}'')"

definition JSON_stringify :: "json \<Rightarrow> string" where
  "JSON_stringify v = serialize [] [] v"


subsection \<open>Truthiness, property access, string methods\<close>

datatype exn = SyntaxError | TypeError | Error string

text \<open>
  A number literal denotes zero when its mantissa has no digit other than \<open>0\<close>.
\<close>

definition num_is_zero :: "string \<Rightarrow> bool" where
  "num_is_zero n =
     list_all (\<lambda>c. c \<notin> set ''123456789'')
       (takeWhile (\<lambda>c. c \<noteq> CHR ''e'' \<and> c \<noteq> CHR ''E'') n)"

fun truthy :: "json \<Rightarrow> bool" where
  "truthy JNull = False"
| "truthy (JBool b) = b"
| "truthy (JNum n) = (\<not> num_is_zero n)"
| "truthy (JStr s) = (s \<noteq> [])"
| "truthy (JArr xs) = True"
| "truthy (JObj ms) = True"

text \<open>A value that may be \<^verbatim>\<open>undefined\<close> is a \<^typ>\<open>json option\<close>.\<close>

fun truthy_opt :: "json option \<Rightarrow> bool" where
  "truthy_opt None = False"
| "truthy_opt (Some v) = truthy v"

text \<open>
  \<open>get_prop v k\<close> is the property read \<^verbatim>\<open>v.k\<close> for the keys the handler reads
  (\<^verbatim>\<open>transaction\<close>, \<^verbatim>\<open>baseMint\<close>, \<^verbatim>\<open>type\<close>, \<^verbatim>\<open>text\<close>; none of them
  is a built-in property of a string, number, boolean or array): a \<^verbatim>\<open>TypeError\<close> on
  \<^verbatim>\<open>null\<close>, the member of an object, \<^verbatim>\<open>undefined\<close> otherwise.
\<close>

fun get_prop :: "json \<Rightarrow> string \<Rightarrow> exn + json option" where
  "get_prop JNull k = Inl TypeError"
| "get_prop (JObj ms) k = Inr (map_of ms k)"
| "get_prop _ k = Inr None"

definition startsWith :: "string \<Rightarrow> string \<Rightarrow> bool" where
  "startsWith s p = (take (length p) s = p)"

fun includes_str :: "string \<Rightarrow> string \<Rightarrow> bool" where
  "includes_str [] p = (p = [])"
| "includes_str (c # cs) p = (startsWith (c # cs) p \<or> includes_str cs p)"

section \<open>The tool bridge and the meta-tool executor\<close>

text \<open>
  \<^verbatim>\<open>ToolResult\<close>, the envelope \<^verbatim>\<open>{ content: [{type, text?}], isError? }\<close> that
  \<^verbatim>\<open>callMcpTool\<close> returns. \<^verbatim>\<open>callMcpTool\<close> itself talks to an external process:
  it is a parameter, a function that returns the envelope or throws (\<open>Inl\<close> the message
  of the error).
\<close>

record content_part =
  part_type :: string
  part_text :: "string option"

record tool_result =
  tr_content :: "content_part list option"
  tr_isError :: bool

type_synonym bridge = "string \<Rightarrow> json \<Rightarrow> string + tool_result"

text \<open>
  The texts of a result: \<^verbatim>\<open>result.content.filter(c => c.type === "text" &&
  c.text).map(c => c.text)\<close>, empty when \<^verbatim>\<open>content\<close> is absent.
\<close>

definition result_texts :: "tool_result \<Rightarrow> string list" where
  "result_texts result =
     (case tr_content result of
        None \<Rightarrow> []
      | Some cs \<Rightarrow>
          map (\<lambda>c. the (part_text c))
            (filter (\<lambda>c. part_type c = ''text'' \<and> part_text c \<noteq> None \<and> part_text c \<noteq> Some [])
               cs))"

text \<open>
  \<^verbatim>\<open>execute_mcp_tool.execute\<close> (route.ts, the \<^verbatim>\<open>execute\<close> callback of the tool).
  Both \<^verbatim>\<open>try\<close> blocks end in a \<^verbatim>\<open>return\<close> of a string: the function returns a
  string whatever \<^verbatim>\<open>JSON.parse\<close> and the bridge do.
\<close>

definition execute :: "bridge \<Rightarrow> string \<Rightarrow> string \<Rightarrow> string" where
  "execute callMcpTool tool_name argsStr =
     (case JSON_parse argsStr of
        None \<Rightarrow> ''Error: arguments must be a valid JSON string.''
      | Some args \<Rightarrow>
          (case callMcpTool tool_name args of
             Inl message \<Rightarrow> ''Error executing tool: '' @ message
           | Inr result \<Rightarrow>
               (let texts = result_texts result
                in if length texts > 0 then join [newline] texts
                   else if tr_isError result then
                     ''Tool execution failed with an unknown error.''
                   else ''Tool executed successfully but returned no content.'')))"

section \<open>The result of the model call\<close>

text \<open>
  \<^verbatim>\<open>generateText\<close> returns the final text and the steps. The handler reads, of a
  step, \<^verbatim>\<open>content\<close> (items with a \<^verbatim>\<open>type\<close> and, for a tool result, an
  \<^verbatim>\<open>output\<close>), \<^verbatim>\<open>toolCalls\<close> and \<^verbatim>\<open>toolResults\<close> (entries with a
  \<^verbatim>\<open>result\<close>); a field that may be absent is an \<open>option\<close>.
\<close>

record content_item =
  item_type :: string
  item_output :: "json option"





section \<open>The result extractor\<close>

record scan_state =
  transactionData :: "json option"
  toolError :: "string option"

text \<open>
  The loop over the items of the old MCP format (route.ts, inside the outer
  \<^verbatim>\<open>try\<close>). An exception leaves the loop with the assignments made so far: the
  result is the exception, if any, and the state.
\<close>

definition scan_legacy_item :: "json \<Rightarrow> scan_state \<Rightarrow> exn option \<times> scan_state" where
  "scan_legacy_item item st =
     (case get_prop item ''type'' of
        Inl e \<Rightarrow> (Some e, st)
      | Inr ty \<Rightarrow>
          if ty \<noteq> Some (JStr ''text'') then (None, st)
          else
            (case get_prop item ''text'' of
               Inl e \<Rightarrow> (Some e, st)
             | Inr tx \<Rightarrow>
                 if \<not> truthy_opt tx then (None, st)
                 else
                   (case tx of
                      Some (JStr t) \<Rightarrow>
                        if startsWith t ''Error:'' then (None, st\<lparr>toolError := Some t\<rparr>)
                        else
                          (case JSON_parse t of
                             None \<Rightarrow> (None, st)
                           | Some innerParsed \<Rightarrow>
                               (case get_prop innerParsed ''transaction'' of
                                  Inl e \<Rightarrow> (None, st)
                                | Inr tv \<Rightarrow>
                                    if truthy_opt tv
                                    then (None, st\<lparr>transactionData := Some innerParsed\<rparr>)
                                    else (None, st)))
                    | _ \<Rightarrow> (Some TypeError, st))))"

fun scan_legacy_items :: "json list \<Rightarrow> scan_state \<Rightarrow> exn option \<times> scan_state" where
  "scan_legacy_items [] st = (None, st)"
| "scan_legacy_items (item # items) st =
     (case scan_legacy_item item st of
        (Some e, st') \<Rightarrow> (Some e, st')
      | (None, st') \<Rightarrow> scan_legacy_items items st')"

text \<open>The body of the outer \<^verbatim>\<open>try\<close>.\<close>

definition scan_parsed :: "string \<Rightarrow> scan_state \<Rightarrow> exn option \<times> scan_state" where
  "scan_parsed resultStr st =
     (case JSON_parse resultStr of
        None \<Rightarrow> (Some SyntaxError, st)
      | Some parsed \<Rightarrow>
          (case get_prop parsed ''transaction'' of
             Inl e \<Rightarrow> (Some e, st)
           | Inr tv \<Rightarrow>
               if truthy_opt tv then (None, st\<lparr>transactionData := Some parsed\<rparr>)
               else
                 (case parsed of
                    JArr items \<Rightarrow> scan_legacy_items items st
                  | _ \<Rightarrow> (None, st))))"

definition resultStr_of :: "json option \<Rightarrow> string" where
  "resultStr_of output =
     (case output of
        None \<Rightarrow> []
      | Some JNull \<Rightarrow> []
      | Some (JStr s) \<Rightarrow> s
      | Some v \<Rightarrow> JSON_stringify v)"

text \<open>The body of the loop over the content items of a step.\<close>

definition scan_content_item :: "content_item \<Rightarrow> scan_state \<Rightarrow> scan_state" where
  "scan_content_item contentItem st =
     (if item_type contentItem \<noteq> ''tool-result'' then st
      else
        (let resultStr = resultStr_of (item_output contentItem)
         in if resultStr = [] then st
            else if startsWith resultStr ''Error:'' \<or> startsWith resultStr ''Error executing''
            then st\<lparr>toolError := Some resultStr\<rparr>
            else
              (case scan_parsed resultStr st of
                 (None, st') \<Rightarrow> st'
               | (Some e, st') \<Rightarrow>
                   if includes_str resultStr ''Error'' then st'\<lparr>toolError := Some resultStr\<rparr>
                   else st')))"



section \<open>The reply when the model returned no text\<close>







section \<open>The scan of the final text\<close>










section \<open>The response classifier and the handler\<close>







subsection \<open>The request and the handler as a whole\<close>

record request =
  message :: string
  history :: "(string \<times> string) list option"
  walletAddress :: "string option"








text \<open>
  The content item under which the model library records what \<^verbatim>\<open>execute\<close>
  returned for a tool call.
\<close>

definition tool_result_item :: "string \<Rightarrow> content_item" where
  "tool_result_item out = \<lparr>item_type = ''tool-result'', item_output = Some (JStr out)\<rparr>"

section \<open>Notions used in the statements\<close>

definition empty_scan :: scan_state where
  "empty_scan = \<lparr>transactionData = None, toolError = None\<rparr>"


text \<open>The payload that one content item assigns, if it assigns one.\<close>

definition item_payload :: "content_item \<Rightarrow> json option" where
  "item_payload it = transactionData (scan_content_item it empty_scan)"


subsection \<open>Notions for the round trip through \<^verbatim>\<open>JSON.stringify\<close> and \<^verbatim>\<open>JSON.parse\<close>\<close>




definition sep_ok :: "string \<Rightarrow> bool" where
  "sep_ok rest = (case rest of [] \<Rightarrow> True | c # cs \<Rightarrow> \<not> is_numchar c)"






section \<open>Properties of the extractor\<close>

subsection \<open>The scan as one loop over the content items\<close>





subsection \<open>An item either leaves the transaction data or replaces it\<close>












lemma item_payload_error:
  assumes "startsWith err ''Error:'' \<or> startsWith err ''Error executing''"
  shows "item_payload (tool_result_item err) = None"
  using assms
  by (auto simp: item_payload_def scan_content_item_def tool_result_item_def resultStr_of_def
        empty_scan_def Let_def)


subsection \<open>What the scan leaves in its state\<close>









subsection \<open>The handler raises no exception after the model call\<close>














subsection \<open>Parse failures\<close>




section \<open>Serialising and parsing back\<close>

text \<open>
  \<^verbatim>\<open>JSON.parse(JSON.stringify(v))\<close> gives \<open>v\<close> back for every value \<open>v\<close> that
  \<^verbatim>\<open>JSON.parse\<close> returns.
\<close>

subsection \<open>String literals\<close>





subsection \<open>Well-formed values and their tokens\<close>

lemma sep_ok_simps [simp]:
  "sep_ok []" "sep_ok (CHR '','' # r)" "sep_ok (CHR '']'' # r)" "sep_ok (CHR ''}'' # r)"
  by (simp_all add: sep_ok_def is_numchar_def)

subsection \<open>The lexer on a serialisation\<close>







lemma numchar_consts [simp]:
  "is_numchar CHR ''e''" "is_numchar CHR ''E''" "is_numchar CHR ''+''" "is_numchar CHR ''-''"
  "is_numchar CHR ''.''" "is_numchar CHR ''0''"
  by (simp_all add: is_numchar_def)











lemma map_option_append_id: "map_option ((@) []) x = x"
  by (cases x) simp_all








subsection \<open>The parser on the tokens of a value\<close>









subsection \<open>What the parser returns is well formed\<close>















section \<open>The claims\<close>







text \<open>
  C3, as stated, fails: for a result with \<^verbatim>\<open>isError\<close> set and a text fragment, the
  executor returns the text of the fragment as for any other result, not a failure
  string: \<^verbatim>\<open>isError\<close> is read only when there is no text.
\<close>

theorem execute_isError_with_text_counterexample:
  \<open>tr_isError \<lparr>tr_content = Some [\<lparr>part_type = ''text'',
                                      part_text = Some ''{"transaction":"QUJD"}''\<rparr>],
                tr_isError = True\<rparr> \<and>
   execute (\<lambda>name args. Inr \<lparr>tr_content = Some [\<lparr>part_type = ''text'',
                                                  part_text = Some ''{"transaction":"QUJD"}''\<rparr>],
                              tr_isError = True\<rparr>) ''swap'' ''{}''
     = ''{"transaction":"QUJD"}''\<close>
  by code_simp

text \<open>
  C3, amended: when the arguments parse and the bridge returns a result, the string
  handed back to the model is the texts of the result (the items of type \<^verbatim>\<open>text\<close>
  with a non-empty text) joined with newlines whenever there is such a text, also when
  \<^verbatim>\<open>isError\<close> is set; with no such text it is the unknown-error string when
  \<^verbatim>\<open>isError\<close> is set and the no-content notice otherwise.
\<close>

theorem execute_result_text:
  assumes "JSON_parse argsStr = Some args"
      and "callMcpTool tool_name args = Inr result"
  shows "(result_texts result \<noteq> [] \<longrightarrow>
            execute callMcpTool tool_name argsStr = join [newline] (result_texts result)) \<and>
         (result_texts result = [] \<and> tr_isError result \<longrightarrow>
            execute callMcpTool tool_name argsStr =
              ''Tool execution failed with an unknown error.'') \<and>
         (result_texts result = [] \<and> \<not> tr_isError result \<longrightarrow>
            execute callMcpTool tool_name argsStr =
              ''Tool executed successfully but returned no content.'')"
  using assms by (simp add: execute_def Let_def)

theorem execute_result_text_witness:
  \<open>execute (\<lambda>name args. Inr \<lparr>tr_content = Some [\<lparr>part_type = ''text'', part_text = Some ''one''\<rparr>,
                                                 \<lparr>part_type = ''image'', part_text = None\<rparr>,
                                                 \<lparr>part_type = ''text'', part_text = Some []\<rparr>,
                                                 \<lparr>part_type = ''text'', part_text = Some ''two''\<rparr>],
                              tr_isError = True\<rparr>) ''swap'' ''{}''
     = ''one'' @ [newline] @ ''two'' \<and>
   execute (\<lambda>name args. Inr \<lparr>tr_content = None, tr_isError = True\<rparr>) ''swap'' ''{}''
     = ''Tool execution failed with an unknown error.'' \<and>
   execute (\<lambda>name args. Inr \<lparr>tr_content = Some [], tr_isError = False\<rparr>) ''swap'' ''{}''
     = ''Tool executed successfully but returned no content.''\<close>
proof -
  let ?R = "\<lparr>tr_content = Some [\<lparr>part_type = ''text'', part_text = Some ''one''\<rparr>,
                               \<lparr>part_type = ''image'', part_text = None\<rparr>,
                               \<lparr>part_type = ''text'', part_text = Some []\<rparr>,
                               \<lparr>part_type = ''text'', part_text = Some ''two''\<rparr>],
             tr_isError = True\<rparr>"
  let ?E = "\<lparr>tr_content = None, tr_isError = True\<rparr>"
  let ?N = "\<lparr>tr_content = Some [], tr_isError = False\<rparr>"
  have p: "JSON_parse ''{}'' = Some (JObj [])" by code_simp
  have t: "result_texts ?R = [''one'', ''two'']" by code_simp
  have e: "result_texts ?E = []" by code_simp
  have n: "result_texts ?N = []" by code_simp
  have 1: "execute (\<lambda>name args. Inr ?R) ''swap'' ''{}'' = ''one'' @ [newline] @ ''two''"
    using execute_result_text [of "''{}''" "JObj []" "\<lambda>name args. Inr ?R" "''swap''" ?R] p
    unfolding t by simp
  have 2: "execute (\<lambda>name args. Inr ?E) ''swap'' ''{}''
             = ''Tool execution failed with an unknown error.''"
    using execute_result_text [of "''{}''" "JObj []" "\<lambda>name args. Inr ?E" "''swap''" ?E] p
    unfolding e by simp
  have 3: "execute (\<lambda>name args. Inr ?N) ''swap'' ''{}''
             = ''Tool executed successfully but returned no content.''"
    using execute_result_text [of "''{}''" "JObj []" "\<lambda>name args. Inr ?N" "''swap''" ?N] p
    unfolding n by simp
  from 1 2 3 show ?thesis by simp
qed

















end
